theory Spec2Isabelle
  imports Complex_Main "HOL-Library.Sublist"
begin

section \<open>JavaScript values\<close>

text \<open>
  The inventory script is dynamically typed: a field of an item, of a backend row or of
  a criteria object may hold any primitive value. The primitives are modelled as they
  are. A number is an IEEE double; only its order, its equality and its being NaN are
  used by the code under study, so a finite double is represented by the rational it
  denotes (both zeros by \<open>0\<close>). Strings are lists of characters.
\<close>

datatype jsnum = NaN | NegInf | Fin rat | PosInf

datatype jsval = JUndefined | JNull | JBool bool | JNum jsnum | JStr string

datatype error = TypeError

text \<open>\<open>Boolean(v)\<close>, the test behind \<open>!v\<close>, \<open>v || w\<close> and \<open>filter(Boolean)\<close>.\<close>

fun truthy :: "jsval \<Rightarrow> bool" where
  "truthy JUndefined = False"
| "truthy JNull = False"
| "truthy (JBool b) = b"
| "truthy (JNum n) = (n \<noteq> NaN \<and> n \<noteq> Fin 0)"
| "truthy (JStr s) = (s \<noteq> [])"

text \<open>\<open>a || b\<close> and \<open>a ?? b\<close>.\<close>

definition js_or :: "jsval \<Rightarrow> jsval \<Rightarrow> jsval" where
  "js_or a b = (if truthy a then a else b)"

definition nullish :: "jsval \<Rightarrow> jsval \<Rightarrow> jsval" where
  "nullish a b = (if a = JUndefined \<or> a = JNull then b else a)"

text \<open>\<open>a === b\<close> on primitives: NaN differs from itself.\<close>

fun strict_eq :: "jsval \<Rightarrow> jsval \<Rightarrow> bool" where
  "strict_eq (JNum a) (JNum b) = (a \<noteq> NaN \<and> a = b)"
| "strict_eq a b = (a = b)"

text \<open>\<open>v == null\<close> and \<open>Number.isNaN(v)\<close> (which does not coerce its argument).\<close>

definition loose_eq_null :: "jsval \<Rightarrow> bool" where
  "loose_eq_null v = (v = JUndefined \<or> v = JNull)"

definition Number_isNaN :: "jsval \<Rightarrow> bool" where
  "Number_isNaN v = (v = JNum NaN)"

text \<open>The order of numbers: every comparison with NaN is false.\<close>

fun num_less :: "jsnum \<Rightarrow> jsnum \<Rightarrow> bool" where
  "num_less NaN b = False"
| "num_less a NaN = False"
| "num_less NegInf b = (b \<noteq> NegInf)"
| "num_less a NegInf = False"
| "num_less PosInf b = False"
| "num_less a PosInf = True"
| "num_less (Fin x) (Fin y) = (x < y)"

definition num_le :: "jsnum \<Rightarrow> jsnum \<Rightarrow> bool" where
  "num_le a b = (a \<noteq> NaN \<and> b \<noteq> NaN \<and> \<not> num_less b a)"

text \<open>Strings compare by code units, lexicographically.\<close>

fun str_less :: "string \<Rightarrow> string \<Rightarrow> bool" where
  "str_less [] [] = False"
| "str_less [] (d # t) = True"
| "str_less (c # s) [] = False"
| "str_less (c # s) (d # t) =
     ((of_char c :: nat) < of_char d \<or> (c = d \<and> str_less s t))"

section \<open>The host\<close>

text \<open>
  What the script takes from its JavaScript host is a parameter of the model: the clock
  (\<open>new Date()\<close>), the date parser (\<open>new Date(s)\<close> on a string, \<open>None\<close> for an invalid
  date), the step to local midnight (\<open>setHours(0, 0, 0, 0)\<close>, which is NaN, here
  \<open>None\<close>, when local midnight leaves the range of time values), the conversions between
  strings and numbers, \<open>toLowerCase\<close>, and the identifier that \<open>createItem\<close> builds
  from the clock and the random generator. Time values are milliseconds since the epoch.
\<close>

record host =
  now :: int
  date_parse :: "string \<Rightarrow> int option"
  set_midnight :: "int \<Rightarrow> int option"
  string_to_number :: "string \<Rightarrow> jsnum"
  number_to_string :: "jsnum \<Rightarrow> string"
  toLowerCase :: "string \<Rightarrow> string"
  fresh_id :: string

fun ToNumber :: "host \<Rightarrow> jsval \<Rightarrow> jsnum" where
  "ToNumber h JUndefined = NaN"
| "ToNumber h JNull = Fin 0"
| "ToNumber h (JBool b) = Fin (if b then 1 else 0)"
| "ToNumber h (JNum n) = n"
| "ToNumber h (JStr s) = string_to_number h s"

fun ToString :: "host \<Rightarrow> jsval \<Rightarrow> string" where
  "ToString h JUndefined = ''undefined''"
| "ToString h JNull = ''null''"
| "ToString h (JBool b) = (if b then ''true'' else ''false'')"
| "ToString h (JNum n) = number_to_string h n"
| "ToString h (JStr s) = s"

text \<open>\<open>a < b\<close>, \<open>a <= b\<close> and \<open>a > b\<close> on primitives.\<close>

fun js_lt :: "host \<Rightarrow> jsval \<Rightarrow> jsval \<Rightarrow> bool" where
  "js_lt h (JStr s) (JStr t) = str_less s t"
| "js_lt h a b = num_less (ToNumber h a) (ToNumber h b)"

fun js_le :: "host \<Rightarrow> jsval \<Rightarrow> jsval \<Rightarrow> bool" where
  "js_le h (JStr s) (JStr t) = (\<not> str_less t s)"
| "js_le h a b = num_le (ToNumber h a) (ToNumber h b)"

definition js_gt :: "host \<Rightarrow> jsval \<Rightarrow> jsval \<Rightarrow> bool" where
  "js_gt h a b = js_lt h b a"

section \<open>DateUtils\<close>

text \<open>
  A \<open>Date\<close> object is its time value. \<open>new Date(v)\<close> parses a string and takes any
  other primitive as a number of milliseconds, clipped to the range of time values.
\<close>

definition trunc :: "rat \<Rightarrow> int" where
  "trunc q = (if 0 \<le> q then \<lfloor>q\<rfloor> else \<lceil>q\<rceil>)"

fun TimeClip :: "jsnum \<Rightarrow> int option" where
  "TimeClip (Fin q) = (if \<bar>q\<bar> \<le> 8640000000000000 then Some (trunc q) else None)"
| "TimeClip n = None"

fun new_Date :: "host \<Rightarrow> jsval \<Rightarrow> int option" where
  "new_Date h (JStr s) = date_parse h s"
| "new_Date h v = TimeClip (ToNumber h v)"

definition parse :: "host \<Rightarrow> jsval \<Rightarrow> int option" where
  "parse h dateStr = (if \<not> truthy dateStr then None else new_Date h dateStr)"

definition msPerDay :: int where
  "msPerDay = 24 * 60 * 60 * 1000"

text \<open>\<open>Math.round\<close> rounds a half upwards. The quotient is taken exactly.\<close>

definition Math_round :: "rat \<Rightarrow> int" where
  "Math_round q = \<lfloor>q + 1 / 2\<rfloor>"

text \<open>
  \<open>daysBetween(from, to)\<close>: null when a date is missing; otherwise both dates go to
  local midnight and the difference is rounded to days (NaN when a midnight is NaN).
\<close>

definition daysBetween :: "host \<Rightarrow> int option \<Rightarrow> int option \<Rightarrow> jsval" where
  "daysBetween h from to =
     (case (from, to) of
        (Some f, Some t) \<Rightarrow>
          (case (set_midnight h t, set_midnight h f) of
             (Some a, Some b) \<Rightarrow>
               JNum (Fin (of_int (Math_round (of_int (a - b) / of_int msPerDay))))
           | _ \<Rightarrow> JNum NaN)
      | _ \<Rightarrow> JNull)"

record classification =
  label :: string
  code :: string
  days :: jsval

definition plural :: "jsval \<Rightarrow> string" where
  "plural daysDiff = (if strict_eq daysDiff (JNum (Fin 1)) then '''' else ''s'')"

definition classifyExpiry :: "host \<Rightarrow> jsval \<Rightarrow> classification" where
  "classifyExpiry h expiryDateStr =
     (case parse h expiryDateStr of
        None \<Rightarrow> \<lparr>label = ''No Expiry'', code = ''none'', days = JNull\<rparr>
      | Some expiry \<Rightarrow>
          (let daysDiff = daysBetween h (Some (now h)) (Some expiry) in
           if js_lt h daysDiff (JNum (Fin 0)) then
             \<lparr>label = ''Expired'', code = ''expired'', days = daysDiff\<rparr>
           else if js_le h daysDiff (JNum (Fin 90)) then
             \<lparr>label = ''Expiring in '' @ ToString h daysDiff @ '' day'' @ plural daysDiff,
              code = ''warning'', days = daysDiff\<rparr>
           else
             \<lparr>label = ''Valid ('' @ ToString h daysDiff @ '' day'' @ plural daysDiff @ '' left)'',
              code = ''good'', days = daysDiff\<rparr>))"

section \<open>A host for the examples\<close>

text \<open>
  The examples run on one concrete host: the UTC time zone, the clock at 10:00 on
  2 November 2026, date-only ISO strings (\<open>YYYY-MM-DD\<close>, which the language reads as
  UTC midnight), whole decimal numbers, and ASCII letters. Other date formats, other
  numeric forms (fractions, exponents, blanks around a number) and letters beyond ASCII
  are not covered, and no example uses them. The host is used at concrete inputs only;
  every general statement below holds for all hosts.
\<close>

definition digit_val :: "char \<Rightarrow> nat option" where
  "digit_val c = map_of (zip ''0123456789'' [0, 1, 2, 3, 4, 5, 6, 7, 8, 9]) c"

fun digits_value :: "nat \<Rightarrow> string \<Rightarrow> nat option" where
  "digits_value acc [] = Some acc"
| "digits_value acc (c # cs) =
     (case digit_val c of None \<Rightarrow> None | Some d \<Rightarrow> digits_value (10 * acc + d) cs)"

definition decimal :: "string \<Rightarrow> nat option" where
  "decimal s = (if s = [] then None else digits_value 0 s)"

definition is_leap :: "int \<Rightarrow> bool" where
  "is_leap y = (y mod 4 = 0 \<and> (y mod 100 \<noteq> 0 \<or> y mod 400 = 0))"

definition days_in_month :: "int \<Rightarrow> int \<Rightarrow> int" where
  "days_in_month y m =
     (if m = 2 then (if is_leap y then 29 else 28)
      else if m = 4 \<or> m = 6 \<or> m = 9 \<or> m = 11 then 30 else 31)"

definition days_from_civil :: "int \<Rightarrow> int \<Rightarrow> int \<Rightarrow> int" where
  "days_from_civil y m d =
     (let y' = (if m \<le> 2 then y - 1 else y);
          era = y' div 400;
          yoe = y' - era * 400;
          doy = (153 * (if 2 < m then m - 3 else m + 9) + 2) div 5 + d - 1;
          doe = yoe * 365 + yoe div 4 - yoe div 100 + doy
      in era * 146097 + doe - 719468)"

definition iso_date :: "string \<Rightarrow> int option" where
  "iso_date s =
     (if length s = 10 \<and> s ! 4 = CHR ''-'' \<and> s ! 7 = CHR ''-'' then
        (case (decimal (take 4 s), decimal (take 2 (drop 5 s)), decimal (drop 8 s)) of
           (Some y, Some m, Some d) \<Rightarrow>
             (if 1 \<le> m \<and> m \<le> 12 \<and> 1 \<le> d \<and> int d \<le> days_in_month (int y) (int m)
              then Some (days_from_civil (int y) (int m) (int d) * msPerDay) else None)
         | _ \<Rightarrow> None)
      else None)"

definition utc_midnight :: "int \<Rightarrow> int option" where
  "utc_midnight t = Some (t - t mod msPerDay)"

definition whole_number :: "string \<Rightarrow> jsnum" where
  "whole_number s =
     (if s = [] then Fin 0
      else case s of
        c # cs \<Rightarrow>
          (if c = CHR ''-'' then (case decimal cs of Some n \<Rightarrow> Fin (- of_nat n) | None \<Rightarrow> NaN)
           else (case decimal s of Some n \<Rightarrow> Fin (of_nat n) | None \<Rightarrow> NaN)))"

definition digit_char :: "nat \<Rightarrow> char" where
  "digit_char d = ''0123456789'' ! (d mod 10)"

fun decimal_digits :: "nat \<Rightarrow> nat \<Rightarrow> string" where
  "decimal_digits 0 n = []"
| "decimal_digits (Suc k) n =
     (if n < 10 then [digit_char n] else decimal_digits k (n div 10) @ [digit_char n])"

definition show_number :: "jsnum \<Rightarrow> string" where
  "show_number n =
     (case n of
        NaN \<Rightarrow> ''NaN''
      | NegInf \<Rightarrow> ''-Infinity''
      | PosInf \<Rightarrow> ''Infinity''
      | Fin q \<Rightarrow>
          (let m = nat \<bar>trunc q\<bar> in
           (if q < 0 \<and> m \<noteq> 0 then ''-'' else '''') @ decimal_digits (Suc m) m))"

definition ascii_lower_char :: "char \<Rightarrow> char" where
  "ascii_lower_char c =
     (case map_of (zip ''ABCDEFGHIJKLMNOPQRSTUVWXYZ'' ''abcdefghijklmnopqrstuvwxyz'') c of
        Some d \<Rightarrow> d
      | None \<Rightarrow> c)"

definition example_host :: host where
  "example_host =
     \<lparr>now = 1793613600000,
      date_parse = iso_date,
      set_midnight = utc_midnight,
      string_to_number = whole_number,
      number_to_string = show_number,
      toLowerCase = map ascii_lower_char,
      fresh_id = ''itm-1793613600000-8f3a2c''\<rparr>"

section \<open>Items and backend rows\<close>

text \<open>
  An item and a backend row are objects with the twelve properties below; a property
  that is absent reads as \<open>undefined\<close>. The property \<open>id\<close> is named \<open>item_id\<close> and
  \<open>row_id\<close> here, and the row's properties that share a name with an item's carry the
  prefix \<open>row_\<close>.
\<close>

record item =
  item_id :: jsval
  category :: jsval
  itemName :: jsval
  brand :: jsval
  contentVolume :: jsval
  lotNumber :: jsval
  dateReceived :: jsval
  expiryDate :: jsval
  dateOpened :: jsval
  status :: jsval
  quantity :: jsval
  remarks :: jsval

record row =
  row_id :: jsval
  row_category :: jsval
  item_name :: jsval
  row_brand :: jsval
  content_volume :: jsval
  lot_number :: jsval
  date_received :: jsval
  expiry_date :: jsval
  date_opened :: jsval
  row_status :: jsval
  row_quantity :: jsval
  row_remarks :: jsval

text \<open>\<open>Number(v)\<close>.\<close>

definition js_Number :: "host \<Rightarrow> jsval \<Rightarrow> jsval" where
  "js_Number h v = JNum (ToNumber h v)"

section \<open>InventoryRepository: the mapping between items and rows\<close>

definition mapRowToItem :: "host \<Rightarrow> row option \<Rightarrow> item option" where
  "mapRowToItem h r =
     (case r of
        None \<Rightarrow> None
      | Some row \<Rightarrow>
          Some \<lparr>item_id = row_id row,
                category = js_or (row_category row) (JStr ''''),
                itemName = item_name row,
                brand = js_or (row_brand row) (JStr ''''),
                contentVolume = js_or (content_volume row) (JStr ''''),
                lotNumber = js_or (lot_number row) (JStr ''''),
                dateReceived = js_or (date_received row) (JStr ''''),
                expiryDate = js_or (expiry_date row) (JStr ''''),
                dateOpened = js_or (date_opened row) (JStr ''''),
                status = js_or (row_status row) (JStr ''Unopened''),
                quantity = js_Number h (nullish (row_quantity row) (JNum (Fin 0))),
                remarks = js_or (row_remarks row) (JStr '''')\<rparr>)"

definition mapItemToRow :: "host \<Rightarrow> item \<Rightarrow> row" where
  "mapItemToRow h i =
     \<lparr>row_id = item_id i,
      row_category = js_or (category i) JNull,
      item_name = itemName i,
      row_brand = js_or (brand i) JNull,
      content_volume = js_or (contentVolume i) JNull,
      lot_number = js_or (lotNumber i) JNull,
      date_received = js_or (dateReceived i) JNull,
      expiry_date = js_or (expiryDate i) JNull,
      date_opened = js_or (dateOpened i) JNull,
      row_status = js_or (status i) (JStr ''Unopened''),
      row_quantity = js_Number h (nullish (quantity i) (JNum (Fin 0))),
      row_remarks = js_or (remarks i) JNull\<rparr>"

section \<open>InventoryService\<close>

subsection \<open>createItem and validate\<close>

text \<open>The payload of \<open>createItem\<close> is an object of the same shape as an item.\<close>

definition createItem :: "host \<Rightarrow> item \<Rightarrow> item" where
  "createItem h payload =
     \<lparr>item_id = js_or (item_id payload) (JStr (fresh_id h)),
      category = category payload,
      itemName = itemName payload,
      brand = js_or (brand payload) (JStr ''''),
      contentVolume = js_or (contentVolume payload) (JStr ''''),
      lotNumber = js_or (lotNumber payload) (JStr ''''),
      dateReceived = js_or (dateReceived payload) (JStr ''''),
      expiryDate = js_or (expiryDate payload) (JStr ''''),
      dateOpened = js_or (dateOpened payload) (JStr ''''),
      status = js_or (status payload) (JStr ''Unopened''),
      quantity = js_Number h (nullish (quantity payload) (JNum (Fin 0))),
      remarks = js_or (remarks payload) (JStr '''')\<rparr>"

definition validate :: "host \<Rightarrow> item \<Rightarrow> string list" where
  "validate h i =
     (if \<not> truthy (category i) then [''Category is required''] else []) @
     (if \<not> truthy (itemName i) then [''Item Name is required''] else []) @
     (if \<not> truthy (expiryDate i) then [''Expiry Date is required''] else []) @
     (if loose_eq_null (quantity i) \<or> Number_isNaN (quantity i)
      then [''Quantity must be a number''] else []) @
     (if js_lt h (quantity i) (JNum (Fin 0)) then [''Quantity cannot be negative''] else [])"

subsection \<open>filter\<close>

record filters =
  search :: jsval
  category_filter :: jsval
  status_filter :: jsval
  expiry :: jsval
  lowStock :: jsval

text \<open>\<open>Array.prototype.join\<close> with a space, and \<open>String.prototype.includes\<close>.\<close>

fun join_space :: "string list \<Rightarrow> string" where
  "join_space [] = []"
| "join_space [s] = s"
| "join_space (s # t # ts) = s @ '' '' @ join_space (t # ts)"

fun str_includes :: "string \<Rightarrow> string \<Rightarrow> bool" where
  "str_includes [] q = (q = [])"
| "str_includes (c # s) q = (prefix q (c # s) \<or> str_includes s q)"

definition haystack :: "host \<Rightarrow> item \<Rightarrow> string" where
  "haystack h i =
     toLowerCase h
       (join_space
          (map (ToString h)
             (filter truthy
                [category i, itemName i, brand i, contentVolume i, lotNumber i, remarks i])))"

text \<open>
  The callback of \<open>items.filter\<close>. Calling \<open>toLowerCase\<close> on a search term that is
  truthy and not a string raises a TypeError.
\<close>

definition filter_callback :: "host \<Rightarrow> filters \<Rightarrow> item \<Rightarrow> error + bool" where
  "filter_callback h f i =
     (if truthy (category_filter f) \<and> \<not> strict_eq (category i) (category_filter f)
      then Inr False
      else if truthy (status_filter f) \<and> \<not> strict_eq (status i) (status_filter f)
      then Inr False
      else
        (case (if truthy (search f)
               then (case search f of
                       JStr s \<Rightarrow> Inr (\<not> str_includes (haystack h i) (toLowerCase h s))
                     | _ \<Rightarrow> Inl TypeError)
               else Inr False) of
           Inl e \<Rightarrow> Inl e
         | Inr True \<Rightarrow> Inr False
         | Inr False \<Rightarrow>
             (let expInfo = classifyExpiry h (expiryDate i) in
              if strict_eq (expiry f) (JStr ''expired'') \<and> code expInfo \<noteq> ''expired''
              then Inr False
              else if strict_eq (expiry f) (JStr ''3months'') \<and> code expInfo \<noteq> ''warning''
              then Inr False
              else if strict_eq (expiry f) (JStr ''good'') \<and> code expInfo \<noteq> ''good''
              then Inr False
              else if strict_eq (lowStock f) (JStr ''low'')
                      \<and> \<not> js_le h (quantity i) (JNum (Fin 2))
              then Inr False
              else Inr True)))"

text \<open>\<open>Array.prototype.filter\<close>: the first exception of the callback ends the call.\<close>

fun array_filter :: "('a \<Rightarrow> error + bool) \<Rightarrow> 'a list \<Rightarrow> error + 'a list" where
  "array_filter p [] = Inr []"
| "array_filter p (x # xs) =
     (case p x of
        Inl e \<Rightarrow> Inl e
      | Inr b \<Rightarrow>
          (case array_filter p xs of
             Inl e \<Rightarrow> Inl e
           | Inr ys \<Rightarrow> Inr (if b then x # ys else ys)))"

definition filter_items :: "host \<Rightarrow> item list \<Rightarrow> filters \<Rightarrow> error + item list" where
  "filter_items h items f = array_filter (filter_callback h f) items"

subsection \<open>sort\<close>

text \<open>
  \<open>a[sortField]\<close>: the item's own property of that name, \<open>undefined\<close> for any other
  name (the members an object inherits are not data and are left out).
\<close>

definition get_prop :: "item \<Rightarrow> string \<Rightarrow> jsval" where
  "get_prop i name =
     (if name = ''id'' then item_id i
      else if name = ''category'' then category i
      else if name = ''itemName'' then itemName i
      else if name = ''brand'' then brand i
      else if name = ''contentVolume'' then contentVolume i
      else if name = ''lotNumber'' then lotNumber i
      else if name = ''dateReceived'' then dateReceived i
      else if name = ''expiryDate'' then expiryDate i
      else if name = ''dateOpened'' then dateOpened i
      else if name = ''status'' then status i
      else if name = ''quantity'' then quantity i
      else if name = ''remarks'' then remarks i
      else JUndefined)"

definition lower_if_string :: "host \<Rightarrow> jsval \<Rightarrow> jsval" where
  "lower_if_string h v = (case v of JStr s \<Rightarrow> JStr (toLowerCase h s) | _ \<Rightarrow> v)"

definition getTime_or_0 :: "int option \<Rightarrow> int" where
  "getTime_or_0 d = (case d of Some t \<Rightarrow> t | None \<Rightarrow> 0)"

text \<open>The comparator handed to \<open>Array.prototype.sort\<close>, for a sort field that is a string.\<close>

definition compare :: "host \<Rightarrow> string \<Rightarrow> int \<Rightarrow> item \<Rightarrow> item \<Rightarrow> int" where
  "compare h sortField dir a b =
     (let av0 = get_prop a sortField;
          bv0 = get_prop b sortField;
          av = (if sortField = ''quantity''
                then js_Number h (nullish av0 (JNum (Fin 0))) else av0);
          bv = (if sortField = ''quantity''
                then js_Number h (nullish bv0 (JNum (Fin 0))) else bv0)
      in if str_includes (toLowerCase h sortField) ''date'' then
           (let atime = getTime_or_0 (parse h av);
                btime = getTime_or_0 (parse h bv)
            in if atime = btime then 0 else if atime > btime then dir else - dir)
         else
           (let av' = lower_if_string h av;
                bv' = lower_if_string h bv
            in if strict_eq av' bv' then 0 else if js_gt h av' bv' then dir else - dir))"

text \<open>
  \<open>Array.prototype.sort\<close> is stable, and sorts whenever the comparator is consistent;
  every stable sort then gives the same result. It is modelled by stable insertion: an
  element goes in front of the first later element that it does not exceed.
\<close>

fun insert_by :: "('a \<Rightarrow> 'a \<Rightarrow> int) \<Rightarrow> 'a \<Rightarrow> 'a list \<Rightarrow> 'a list" where
  "insert_by cmp x [] = [x]"
| "insert_by cmp x (y # ys) =
     (if cmp x y \<le> 0 then x # y # ys else y # insert_by cmp x ys)"

definition array_sort :: "('a \<Rightarrow> 'a \<Rightarrow> int) \<Rightarrow> 'a list \<Rightarrow> 'a list" where
  "array_sort cmp xs = foldr (insert_by cmp) xs []"

text \<open>
  \<open>sort(items, sortField, direction)\<close>, on the contents of the arrays. With a sort
  field that is truthy and not a string, the first call of the comparator raises a
  TypeError at \<open>sortField.toLowerCase\<close>; the comparator is called when there are two
  items to compare.
\<close>

definition sort_items :: "host \<Rightarrow> item list \<Rightarrow> jsval \<Rightarrow> jsval \<Rightarrow> error + item list" where
  "sort_items h items sortField direction =
     (if \<not> truthy sortField then Inr items
      else
        (let dir = (if strict_eq direction (JStr ''desc'') then - 1 else 1) in
         case sortField of
           JStr fld \<Rightarrow> Inr (array_sort (compare h fld dir) items)
         | _ \<Rightarrow> (if length items < 2 then Inr items else Inl TypeError)))"

subsection \<open>computeAlerts\<close>

record alerts =
  expSoon :: nat
  expired :: nat
  outOfStock :: nat
  zeroQty :: nat

text \<open>The body of the \<open>forEach\<close>, on the four counters.\<close>

definition tally :: "host \<Rightarrow> alerts \<Rightarrow> item \<Rightarrow> alerts" where
  "tally h acc i =
     (let expInfo = classifyExpiry h (expiryDate i);
          acc1 = (if code expInfo = ''expired''
                  then acc\<lparr>expired := expired acc + 1\<rparr> else acc);
          acc2 = (if code expInfo = ''warning''
                  then acc1\<lparr>expSoon := expSoon acc1 + 1\<rparr> else acc1);
          acc3 = (if strict_eq (status i) (JStr ''Out of Stock'')
                  then acc2\<lparr>outOfStock := outOfStock acc2 + 1\<rparr> else acc2)
      in if strict_eq (quantity i) (JNum (Fin 0))
         then acc3\<lparr>zeroQty := zeroQty acc3 + 1\<rparr> else acc3)"

definition computeAlerts :: "host \<Rightarrow> item list \<Rightarrow> alerts" where
  "computeAlerts h items =
     foldl (tally h) \<lparr>expSoon = 0, expired = 0, outOfStock = 0, zeroQty = 0\<rparr> items"

subsection \<open>filter and sort on arrays held by reference\<close>

text \<open>
  Arrays are objects: \<open>filter\<close> and \<open>slice\<close> allocate a new array, and
  \<open>Array.prototype.sort\<close> reorders the array it is called on. The store holds the
  arrays; a reference is an index into it, and a new array takes the next free index.
\<close>

type_synonym heap = "item list list"

definition slice :: "heap \<Rightarrow> nat \<Rightarrow> heap \<times> nat" where
  "slice hp a = (hp @ [hp ! a], length hp)"

definition sort_in_place :: "(item \<Rightarrow> item \<Rightarrow> int) \<Rightarrow> heap \<Rightarrow> nat \<Rightarrow> heap \<times> nat" where
  "sort_in_place cmp hp a = (hp[a := array_sort cmp (hp ! a)], a)"

definition filter_ref :: "host \<Rightarrow> heap \<Rightarrow> nat \<Rightarrow> filters \<Rightarrow> error + heap \<times> nat" where
  "filter_ref h hp items f =
     (case array_filter (filter_callback h f) (hp ! items) of
        Inl e \<Rightarrow> Inl e
      | Inr out \<Rightarrow> Inr (hp @ [out], length hp))"

definition sort_ref :: "host \<Rightarrow> heap \<Rightarrow> nat \<Rightarrow> jsval \<Rightarrow> jsval \<Rightarrow> error + heap \<times> nat" where
  "sort_ref h hp items sortField direction =
     (if \<not> truthy sortField then Inr (slice hp items)
      else
        (let dir = (if strict_eq direction (JStr ''desc'') then - 1 else 1);
             (hp1, sorted) = slice hp items
         in case sortField of
              JStr fld \<Rightarrow> Inr (sort_in_place (compare h fld dir) hp1 sorted)
            | _ \<Rightarrow> (if length (hp ! items) < 2 then Inr (hp1, sorted) else Inl TypeError)))"

section \<open>InventoryRepository: load, upsert and remove\<close>

text \<open>
  The backend is a collaborator of the script: the client found at
  \<open>window.supabaseClient\<close>, if any, answers a request with a reply, with an error
  indicator (\<open>Rejected\<close>) or with an exception (\<open>Thrown\<close>), and a write leaves the
  store in some new state. The calls are taken one after the other; what other clients
  do to the store in between is outside the model. The console keeps the messages
  logged.
\<close>

datatype 'a reply = Reply 'a | Rejected | Thrown

record 'db client =
  select_ordered :: "'db \<Rightarrow> row option list option reply"
  upsert_row :: "row \<Rightarrow> 'db \<Rightarrow> unit reply \<times> 'db"
  delete_row :: "jsval \<Rightarrow> 'db \<Rightarrow> unit reply \<times> 'db"

record 'db world =
  supabaseClient :: "'db client option"
  store :: 'db
  console :: "string list"

definition console_error :: "string \<Rightarrow> 'db world \<Rightarrow> 'db world" where
  "console_error msg w = w\<lparr>console := console w @ [msg]\<rparr>"

definition getClient :: "'db world \<Rightarrow> 'db client option \<times> 'db world" where
  "getClient w =
     (case supabaseClient w of
        None \<Rightarrow> (None, console_error ''Supabase client not found on window.supabaseClient'' w)
      | Some c \<Rightarrow> (Some c, w))"

definition load :: "host \<Rightarrow> 'db world \<Rightarrow> item option list \<times> 'db world" where
  "load h w =
     (case getClient w of
        (None, w1) \<Rightarrow> ([], w1)
      | (Some supabase, w1) \<Rightarrow>
          (case select_ordered supabase (store w1) of
             Reply data \<Rightarrow>
               (map (mapRowToItem h) (case data of None \<Rightarrow> [] | Some rows \<Rightarrow> rows), w1)
           | Rejected \<Rightarrow> ([], console_error ''Failed to load inventory from Supabase'' w1)
           | Thrown \<Rightarrow>
               ([], console_error ''Unexpected error loading inventory from Supabase'' w1)))"

definition upsert :: "host \<Rightarrow> 'db world \<Rightarrow> item \<Rightarrow> item option list \<times> 'db world" where
  "upsert h w i =
     (case getClient w of
        (None, w1) \<Rightarrow> ([], w1)
      | (Some supabase, w1) \<Rightarrow>
          (let (r, s) = upsert_row supabase (mapItemToRow h i) (store w1);
               w2 = w1\<lparr>store := s\<rparr>;
               w3 = (case r of
                       Reply u \<Rightarrow> w2
                     | Rejected \<Rightarrow>
                         console_error ''Failed to upsert inventory item in Supabase'' w2
                     | Thrown \<Rightarrow>
                         console_error
                           ''Unexpected error upserting inventory item in Supabase'' w2)
           in load h w3))"

definition remove :: "host \<Rightarrow> 'db world \<Rightarrow> jsval \<Rightarrow> item option list \<times> 'db world" where
  "remove h w ident =
     (case getClient w of
        (None, w1) \<Rightarrow> ([], w1)
      | (Some supabase, w1) \<Rightarrow>
          (let (r, s) = delete_row supabase ident (store w1);
               w2 = w1\<lparr>store := s\<rparr>;
               w3 = (case r of
                       Reply u \<Rightarrow> w2
                     | Rejected \<Rightarrow>
                         console_error ''Failed to delete inventory item in Supabase'' w2
                     | Thrown \<Rightarrow>
                         console_error
                           ''Unexpected error deleting inventory item in Supabase'' w2)
           in load h w3))"

section \<open>The specification's notions\<close>

text \<open>
  The whole-day difference of the specification: today and the expiry date are both
  taken to midnight, and the difference in days is rounded to the nearest whole number.
\<close>

definition whole_day_difference :: "host \<Rightarrow> int \<Rightarrow> int option" where
  "whole_day_difference h t =
     (case (set_midnight h (now h), set_midnight h t) of
        (Some a, Some b) \<Rightarrow> Some (round (of_int (b - a) / of_int msPerDay :: rat))
      | _ \<Rightarrow> None)"

text \<open>The five rules of \<open>validate\<close>, in the order of the specification.\<close>

datatype rule =
  CategoryPresent | ItemNamePresent | ExpiryDatePresent | QuantityNumber | QuantityNonNegative

definition all_rules :: "rule list" where
  "all_rules =
     [CategoryPresent, ItemNamePresent, ExpiryDatePresent, QuantityNumber, QuantityNonNegative]"

fun message :: "rule \<Rightarrow> string" where
  "message CategoryPresent = ''Category is required''"
| "message ItemNamePresent = ''Item Name is required''"
| "message ExpiryDatePresent = ''Expiry Date is required''"
| "message QuantityNumber = ''Quantity must be a number''"
| "message QuantityNonNegative = ''Quantity cannot be negative''"

fun violated :: "host \<Rightarrow> item \<Rightarrow> rule \<Rightarrow> bool" where
  "violated h i CategoryPresent = (\<not> truthy (category i))"
| "violated h i ItemNamePresent = (\<not> truthy (itemName i))"
| "violated h i ExpiryDatePresent = (\<not> truthy (expiryDate i))"
| "violated h i QuantityNumber =
     (quantity i = JUndefined \<or> quantity i = JNull \<or> quantity i = JNum NaN)"
| "violated h i QuantityNonNegative = js_lt h (quantity i) (JNum (Fin 0))"

text \<open>The item of the specification's example: three empty fields and the quantity \<open>abc\<close>.\<close>

definition abc_item :: item where
  "abc_item =
     \<lparr>item_id = JUndefined, category = JStr '''', itemName = JStr '''', brand = JUndefined,
      contentVolume = JUndefined, lotNumber = JUndefined, dateReceived = JUndefined,
      expiryDate = JStr '''', dateOpened = JUndefined, status = JUndefined,
      quantity = JStr ''abc'', remarks = JUndefined\<rparr>"

text \<open>
  The criteria of \<open>filter\<close>. An unset criterion is a falsy value (the empty string of
  the page's controls, or an absent property). The expiry criterion selects a bucket by
  one of three values; the low-stock criterion is the value \<open>low\<close>.
\<close>

definition unset :: "jsval \<Rightarrow> bool" where
  "unset v = (\<not> truthy v)"

definition no_criteria :: "filters \<Rightarrow> bool" where
  "no_criteria f =
     (unset (search f) \<and> unset (category_filter f) \<and> unset (status_filter f) \<and>
      unset (expiry f) \<and> unset (lowStock f))"

definition bucket :: "jsval \<Rightarrow> string option" where
  "bucket v =
     (if v = JStr ''expired'' then Some ''expired''
      else if v = JStr ''3months'' then Some ''warning''
      else if v = JStr ''good'' then Some ''good''
      else None)"

definition search_term_ok :: "filters \<Rightarrow> bool" where
  "search_term_ok f = (case search f of JStr s \<Rightarrow> True | v \<Rightarrow> unset v)"

definition joined_fields :: "host \<Rightarrow> item \<Rightarrow> string" where
  "joined_fields h i =
     join_space
       (map (ToString h)
          (filter truthy
             [category i, itemName i, brand i, contentVolume i, lotNumber i, remarks i]))"

definition category_ok :: "filters \<Rightarrow> item \<Rightarrow> bool" where
  "category_ok f i = (unset (category_filter f) \<or> strict_eq (category i) (category_filter f))"

definition status_ok :: "filters \<Rightarrow> item \<Rightarrow> bool" where
  "status_ok f i = (unset (status_filter f) \<or> strict_eq (status i) (status_filter f))"

definition search_ok :: "host \<Rightarrow> filters \<Rightarrow> item \<Rightarrow> bool" where
  "search_ok h f i =
     (case search f of
        JStr s \<Rightarrow>
          s = [] \<or> sublist (toLowerCase h s) (toLowerCase h (joined_fields h i))
      | v \<Rightarrow> True)"

definition expiry_ok :: "host \<Rightarrow> filters \<Rightarrow> item \<Rightarrow> bool" where
  "expiry_ok h f i =
     (case bucket (expiry f) of
        None \<Rightarrow> True
      | Some c \<Rightarrow> code (classifyExpiry h (expiryDate i)) = c)"

definition lowStock_ok :: "host \<Rightarrow> filters \<Rightarrow> item \<Rightarrow> bool" where
  "lowStock_ok h f i = (lowStock f = JStr ''low'' \<longrightarrow> js_le h (quantity i) (JNum (Fin 2)))"

definition satisfies :: "host \<Rightarrow> filters \<Rightarrow> item \<Rightarrow> bool" where
  "satisfies h f i =
     (category_ok f i \<and> status_ok f i \<and> search_ok h f i \<and> expiry_ok h f i \<and>
      lowStock_ok h f i)"

text \<open>The key by which a date field is ordered: its time value, the epoch when there is none.\<close>

definition date_key :: "host \<Rightarrow> string \<Rightarrow> item \<Rightarrow> int" where
  "date_key h fld i = getTime_or_0 (parse h (get_prop i fld))"

text \<open>The items of the examples.\<close>

definition reagent :: "string \<Rightarrow> string \<Rightarrow> string \<Rightarrow> int \<Rightarrow> item" where
  "reagent name expiry_str st q =
     \<lparr>item_id = JStr name, category = JStr ''Chemistry'', itemName = JStr name,
      brand = JStr '''', contentVolume = JStr '''', lotNumber = JStr '''',
      dateReceived = JStr '''', expiryDate = JStr expiry_str, dateOpened = JStr '''',
      status = JStr st, quantity = JNum (Fin (of_int q)), remarks = JStr ''''\<rparr>"

definition no_filters :: filters where
  "no_filters =
     \<lparr>search = JStr '''', category_filter = JStr '''', status_filter = JStr '''',
      expiry = JStr '''', lowStock = JStr ''''\<rparr>"






definition glucose :: item where
  "glucose =
     \<lparr>item_id = JStr ''itm-1'', category = JStr ''Chemistry'', itemName = JStr ''Glucose'',
      brand = JStr '''', contentVolume = JStr ''500 mL'', lotNumber = JStr '''',
      dateReceived = JStr ''2026-09-01'', expiryDate = JStr ''2027-05-21'',
      dateOpened = JStr '''', status = JStr '''', quantity = JNum (Fin 5), remarks = JStr ''''\<rparr>"

text \<open>
  The key by which quantities are ordered, \<open>Number(quantity ?? 0)\<close> when that is a
  finite number.
\<close>

definition finite_quantity :: "host \<Rightarrow> item \<Rightarrow> bool" where
  "finite_quantity h i =
     (case ToNumber h (nullish (quantity i) (JNum (Fin 0))) of Fin q \<Rightarrow> True | _ \<Rightarrow> False)"

definition quantity_key :: "host \<Rightarrow> item \<Rightarrow> rat" where
  "quantity_key h i =
     (case ToNumber h (nullish (quantity i) (JNum (Fin 0))) of Fin q \<Rightarrow> q | _ \<Rightarrow> 0)"

text \<open>More items and criteria for the examples.\<close>

definition example_items :: "item list" where
  "example_items =
     [reagent ''Glucose'' ''2027-01-31'' ''Opened'' 2,
      reagent ''Glucose HK'' ''2027-05-21'' ''Opened'' 1,
      reagent ''Urea'' ''2027-01-31'' ''Opened'' 2,
      reagent ''Glucose Oxidase'' ''2027-01-31'' ''Opened'' 7]"

definition example_filters :: filters where
  "example_filters =
     \<lparr>search = JStr ''GLU'', category_filter = JStr ''Chemistry'', status_filter = JStr '''',
      expiry = JStr ''3months'', lowStock = JStr ''low''\<rparr>"

definition undated :: item where
  "undated = reagent ''Urea'' '''' ''Unopened'' 4"

definition old_stock :: item where
  "old_stock = reagent ''Albumin'' ''1969-12-31'' ''Unopened'' 4"

definition dated_items :: "item list" where
  "dated_items =
     [reagent ''Glucose'' ''2027-01-31'' ''Opened'' 3, undated,
      reagent ''Urea'' ''2026-11-01'' ''Opened'' 1, reagent ''Albumin'' ''soon'' ''Opened'' 2]"

text \<open>A backend that rejects every write, for the examples.\<close>

definition rejecting_client :: "row option list client" where
  "rejecting_client =
     \<lparr>select_ordered = (\<lambda>db. Reply (Some db)),
      upsert_row = (\<lambda>r db. (Rejected, db)),
      delete_row = (\<lambda>k db. (Thrown, db))\<rparr>"

definition example_world :: "row option list world" where
  "example_world =
     \<lparr>supabaseClient = Some rejecting_client,
      store = [Some (mapItemToRow example_host glucose)],
      console = []\<rparr>"

section \<open>Properties of DateUtils\<close>

lemma daysBetween_whole:
  "whole_day_difference h t = Some d \<Longrightarrow>
   daysBetween h (Some (now h)) (Some t) = JNum (Fin (of_int d))"
  by (auto simp: whole_day_difference_def daysBetween_def Math_round_def round_def
      split: option.splits)

lemma example_parse:
  "parse example_host (JStr ''2026-11-02'') = Some 1793577600000"
  "parse example_host (JStr ''2027-01-31'') = Some 1801353600000"
  "parse example_host (JStr ''2027-02-01'') = Some 1801440000000"
  "parse example_host (JStr ''2026-11-01'') = Some 1793491200000"
  "parse example_host (JStr ''next month'') = None"
  by code_simp+

lemma example_days:
  "whole_day_difference example_host 1793577600000 = Some 0"
  "whole_day_difference example_host 1801353600000 = Some 90"
  "whole_day_difference example_host 1801440000000 = Some 91"
  "whole_day_difference example_host 1793491200000 = Some (- 1)"
  by code_simp+

text \<open>
  C1. With today fixed by the host, \<open>classifyExpiry\<close> answers code \<open>none\<close> and days
  null for a date that is absent or does not parse. For a date that parses, the days
  field is the whole-day difference between today and the date, both at midnight, and
  the code is \<open>expired\<close> when that difference is negative, \<open>warning\<close> when it lies
  between 0 and 90 inclusive, and \<open>good\<close> when it exceeds 90. So 0 and 90 are
  \<open>warning\<close>, 91 is \<open>good\<close> and -1 is \<open>expired\<close>.
\<close>

theorem classifyExpiry_spec:
  "(parse h D = None \<longrightarrow>
      code (classifyExpiry h D) = ''none'' \<and> days (classifyExpiry h D) = JNull) \<and>
   (\<forall>t d. parse h D = Some t \<longrightarrow> whole_day_difference h t = Some d \<longrightarrow>
      days (classifyExpiry h D) = JNum (Fin (of_int d)) \<and>
      (d < 0 \<longrightarrow> code (classifyExpiry h D) = ''expired'') \<and>
      (0 \<le> d \<and> d \<le> 90 \<longrightarrow> code (classifyExpiry h D) = ''warning'') \<and>
      (90 < d \<longrightarrow> code (classifyExpiry h D) = ''good''))"
proof (intro conjI allI impI)
  assume "parse h D = None"
  then show "code (classifyExpiry h D) = ''none''" by (simp add: classifyExpiry_def)
next
  assume "parse h D = None"
  then show "days (classifyExpiry h D) = JNull" by (simp add: classifyExpiry_def)
next
  fix t d
  assume p: "parse h D = Some t" and w: "whole_day_difference h t = Some d"
  note db = daysBetween_whole [OF w]
  show "days (classifyExpiry h D) = JNum (Fin (of_int d))"
    using p db by (simp add: classifyExpiry_def Let_def)
  show "code (classifyExpiry h D) = ''expired''" if "d < 0"
    using p db that by (simp add: classifyExpiry_def Let_def)
  show "code (classifyExpiry h D) = ''warning''" if "0 \<le> d \<and> d \<le> 90"
    using p db that by (simp add: classifyExpiry_def Let_def num_le_def)
  show "code (classifyExpiry h D) = ''good''" if "90 < d"
    using p db that by (simp add: classifyExpiry_def Let_def num_le_def)
qed

theorem classifyExpiry_spec_witness:
  "code (classifyExpiry example_host (JStr ''2026-11-02'')) = ''warning'' \<and>
   days (classifyExpiry example_host (JStr ''2026-11-02'')) = JNum (Fin 0) \<and>
   code (classifyExpiry example_host (JStr ''2027-01-31'')) = ''warning'' \<and>
   days (classifyExpiry example_host (JStr ''2027-01-31'')) = JNum (Fin 90) \<and>
   code (classifyExpiry example_host (JStr ''2027-02-01'')) = ''good'' \<and>
   days (classifyExpiry example_host (JStr ''2027-02-01'')) = JNum (Fin 91) \<and>
   code (classifyExpiry example_host (JStr ''2026-11-01'')) = ''expired'' \<and>
   days (classifyExpiry example_host (JStr ''2026-11-01'')) = JNum (Fin (- 1)) \<and>
   code (classifyExpiry example_host (JStr ''next month'')) = ''none'' \<and>
   days (classifyExpiry example_host (JStr ''next month'')) = JNull"
  using classifyExpiry_spec [of example_host "JStr ''2026-11-02''"]
        classifyExpiry_spec [of example_host "JStr ''2027-01-31''"]
        classifyExpiry_spec [of example_host "JStr ''2027-02-01''"]
        classifyExpiry_spec [of example_host "JStr ''2026-11-01''"]
        classifyExpiry_spec [of example_host "JStr ''next month''"]
  by (simp add: example_parse example_days)

section \<open>Properties of createItem and validate\<close>

lemma example_abc: "string_to_number example_host ''abc'' = NaN"
  by code_simp

text \<open>
  C2 (amended). \<open>validate\<close> returns the messages of all violated rules, in the order
  category, item name, expiry date, quantity is a number, quantity is not negative. The
  fourth rule is violated by a quantity that is null, undefined or NaN, and by nothing
  else: on the item with empty category, item name and expiry date and the quantity
  \<open>abc\<close>, whose quantity is a string, \<open>validate\<close> returns exactly the three messages
  for the empty fields.
\<close>

theorem validate_rules:
  "validate h i = map message (filter (violated h i) all_rules) \<and>
   (string_to_number h ''abc'' = NaN \<longrightarrow>
      validate h abc_item =
        [''Category is required'', ''Item Name is required'', ''Expiry Date is required''])"
proof
  show "validate h i = map message (filter (violated h i) all_rules)"
    by (simp add: validate_def all_rules_def loose_eq_null_def Number_isNaN_def)
  show "string_to_number h ''abc'' = NaN \<longrightarrow>
      validate h abc_item =
        [''Category is required'', ''Item Name is required'', ''Expiry Date is required'']"
    by (simp add: validate_def abc_item_def loose_eq_null_def Number_isNaN_def)
qed

theorem validate_rules_witness:
  "string_to_number example_host ''abc'' = NaN \<and>
   validate example_host abc_item =
     [''Category is required'', ''Item Name is required'', ''Expiry Date is required''] \<and>
   validate example_host (reagent ''Glucose'' ''2030-01-01'' ''Unopened'' (- 1)) =
     map message
       (filter (violated example_host (reagent ''Glucose'' ''2030-01-01'' ''Unopened'' (- 1)))
          all_rules) \<and>
   map message
     (filter (violated example_host (reagent ''Glucose'' ''2030-01-01'' ''Unopened'' (- 1)))
        all_rules) =
     [''Quantity cannot be negative'']"
proof -
  have m: "map message
     (filter (violated example_host (reagent ''Glucose'' ''2030-01-01'' ''Unopened'' (- 1)))
        all_rules) =
     [''Quantity cannot be negative'']"
    by code_simp
  show ?thesis
    using validate_rules [of example_host "reagent ''Glucose'' ''2030-01-01'' ''Unopened'' (- 1)"]
      example_abc m
    by simp
qed

text \<open>
  The claim as the specification words it fails: on that item \<open>validate\<close> returns
  three messages, not four, and none about the quantity being a number.
\<close>

theorem validate_abc_three_messages:
  "length (validate example_host abc_item) = 3 \<and>
   ''Quantity must be a number'' \<notin> set (validate example_host abc_item)"
  by code_simp

text \<open>
  C10. The quantity of the item that \<open>createItem\<close> builds is
  \<open>Number(payload.quantity ?? 0)\<close>: 0 when the payload has none, NaN when it is a
  string that is not numeric. So \<open>validate\<close> reports such an item's quantity as not
  a number, while it does not report a string quantity handed to it directly.
\<close>

theorem createItem_quantity:
  "quantity (createItem h p) = js_Number h (nullish (quantity p) (JNum (Fin 0))) \<and>
   (quantity p = JUndefined \<or> quantity p = JNull \<longrightarrow>
      quantity (createItem h p) = JNum (Fin 0)) \<and>
   (\<forall>s. quantity p = JStr s \<and> string_to_number h s = NaN \<longrightarrow>
      quantity (createItem h p) = JNum NaN \<and>
      ''Quantity must be a number'' \<in> set (validate h (createItem h p))) \<and>
   (\<forall>s. quantity p = JStr s \<longrightarrow> ''Quantity must be a number'' \<notin> set (validate h p))"
proof (intro conjI allI impI)
  show "quantity (createItem h p) = js_Number h (nullish (quantity p) (JNum (Fin 0)))"
    by (simp add: createItem_def)
  show "quantity (createItem h p) = JNum (Fin 0)"
    if "quantity p = JUndefined \<or> quantity p = JNull"
    using that by (auto simp: createItem_def nullish_def js_Number_def)
next
  fix s
  assume a: "quantity p = JStr s \<and> string_to_number h s = NaN"
  then show q: "quantity (createItem h p) = JNum NaN"
    by (simp add: createItem_def nullish_def js_Number_def)
  then show "''Quantity must be a number'' \<in> set (validate h (createItem h p))"
    by (simp add: validate_def Number_isNaN_def)
next
  fix s
  assume "quantity p = JStr s"
  then show "''Quantity must be a number'' \<notin> set (validate h p)"
    by (simp add: validate_def Number_isNaN_def loose_eq_null_def)
qed

theorem createItem_quantity_witness:
  "quantity abc_item = JStr ''abc'' \<and> string_to_number example_host ''abc'' = NaN \<and>
   quantity (createItem example_host abc_item) = JNum NaN \<and>
   ''Quantity must be a number''
     \<in> set (validate example_host (createItem example_host abc_item)) \<and>
   ''Quantity must be a number'' \<notin> set (validate example_host abc_item) \<and>
   quantity (createItem example_host (abc_item\<lparr>quantity := JUndefined\<rparr>)) = JNum (Fin 0)"
proof -
  have q: "quantity abc_item = JStr ''abc''" by (simp add: abc_item_def)
  show ?thesis
    using createItem_quantity [of example_host abc_item]
      createItem_quantity [of example_host "abc_item\<lparr>quantity := JUndefined\<rparr>"]
      q example_abc
    by (simp add: js_Number_def nullish_def)
qed

section \<open>Properties of the row mapping\<close>







section \<open>Properties of computeAlerts\<close>

lemma foldl_tally:
  "foldl (tally h) acc items =
     \<lparr>expSoon = expSoon acc
        + length (filter (\<lambda>i. code (classifyExpiry h (expiryDate i)) = ''warning'') items),
      expired = expired acc
        + length (filter (\<lambda>i. code (classifyExpiry h (expiryDate i)) = ''expired'') items),
      outOfStock = outOfStock acc
        + length (filter (\<lambda>i. status i = JStr ''Out of Stock'') items),
      zeroQty = zeroQty acc + length (filter (\<lambda>i. quantity i = JNum (Fin 0)) items)\<rparr>"
proof (induction items arbitrary: acc)
  case Nil
  show ?case by simp
next
  case (Cons i items)
  have s: "strict_eq (status i) (JStr ''Out of Stock'') = (status i = JStr ''Out of Stock'')"
    by (cases "status i") auto
  have q: "strict_eq (quantity i) (JNum (Fin 0)) = (quantity i = JNum (Fin 0))"
    by (cases "quantity i") auto
  show ?case
    by (simp add: Cons.IH) (simp add: tally_def Let_def s q)
qed

lemma example_parse_scenario:
  "parse example_host (JStr ''2026-10-23'') = Some 1792713600000"
  "parse example_host (JStr ''2027-05-21'') = Some 1810857600000"
  by code_simp+

lemma example_days_scenario:
  "whole_day_difference example_host 1792713600000 = Some (- 10)"
  "whole_day_difference example_host 1810857600000 = Some 200"
  by code_simp+

text \<open>
  C7. \<open>computeAlerts\<close> counts, each on its own, the items classified \<open>expired\<close>, the
  items classified \<open>warning\<close>, the items whose status is exactly \<open>Out of Stock\<close>, and
  the items whose quantity is the number 0. On two items, the first expired ten days
  ago, with quantity 0 and status \<open>Opened\<close>, the second expiring in 200 days, with
  quantity 5 and status \<open>Unopened\<close>, it returns one expired item, none expiring soon,
  none out of stock and one of quantity zero.
\<close>

theorem computeAlerts_counts:
  "expired (computeAlerts h items) =
     length (filter (\<lambda>i. code (classifyExpiry h (expiryDate i)) = ''expired'') items) \<and>
   expSoon (computeAlerts h items) =
     length (filter (\<lambda>i. code (classifyExpiry h (expiryDate i)) = ''warning'') items) \<and>
   outOfStock (computeAlerts h items) =
     length (filter (\<lambda>i. status i = JStr ''Out of Stock'') items) \<and>
   zeroQty (computeAlerts h items) = length (filter (\<lambda>i. quantity i = JNum (Fin 0)) items) \<and>
   (\<forall>a b ta tb.
      parse h (expiryDate a) = Some ta \<and> whole_day_difference h ta = Some (- 10) \<and>
      quantity a = JNum (Fin 0) \<and> status a = JStr ''Opened'' \<and>
      parse h (expiryDate b) = Some tb \<and> whole_day_difference h tb = Some 200 \<and>
      quantity b = JNum (Fin 5) \<and> status b = JStr ''Unopened'' \<longrightarrow>
      computeAlerts h [a, b] = \<lparr>expSoon = 0, expired = 1, outOfStock = 0, zeroQty = 1\<rparr>)"
proof (intro conjI allI impI)
  show "expired (computeAlerts h items) =
     length (filter (\<lambda>i. code (classifyExpiry h (expiryDate i)) = ''expired'') items)"
    by (simp add: computeAlerts_def foldl_tally)
  show "expSoon (computeAlerts h items) =
     length (filter (\<lambda>i. code (classifyExpiry h (expiryDate i)) = ''warning'') items)"
    by (simp add: computeAlerts_def foldl_tally)
  show "outOfStock (computeAlerts h items) =
     length (filter (\<lambda>i. status i = JStr ''Out of Stock'') items)"
    by (simp add: computeAlerts_def foldl_tally)
  show "zeroQty (computeAlerts h items) = length (filter (\<lambda>i. quantity i = JNum (Fin 0)) items)"
    by (simp add: computeAlerts_def foldl_tally)
next
  fix a b :: item and ta tb
  assume A: "parse h (expiryDate a) = Some ta \<and> whole_day_difference h ta = Some (- 10) \<and>
      quantity a = JNum (Fin 0) \<and> status a = JStr ''Opened'' \<and>
      parse h (expiryDate b) = Some tb \<and> whole_day_difference h tb = Some 200 \<and>
      quantity b = JNum (Fin 5) \<and> status b = JStr ''Unopened''"
  have ca: "code (classifyExpiry h (expiryDate a)) = ''expired''"
    using A daysBetween_whole [of h ta "- 10"] by (simp add: classifyExpiry_def Let_def)
  have cb: "code (classifyExpiry h (expiryDate b)) = ''good''"
    using A daysBetween_whole [of h tb 200] by (simp add: classifyExpiry_def Let_def num_le_def)
  show "computeAlerts h [a, b] = \<lparr>expSoon = 0, expired = 1, outOfStock = 0, zeroQty = 1\<rparr>"
    unfolding computeAlerts_def foldl_tally using A ca cb by simp
qed

theorem computeAlerts_counts_witness:
  "parse example_host (expiryDate (reagent ''A'' ''2026-10-23'' ''Opened'' 0))
     = Some 1792713600000 \<and>
   whole_day_difference example_host 1792713600000 = Some (- 10) \<and>
   parse example_host (expiryDate (reagent ''B'' ''2027-05-21'' ''Unopened'' 5))
     = Some 1810857600000 \<and>
   whole_day_difference example_host 1810857600000 = Some 200 \<and>
   computeAlerts example_host
     [reagent ''A'' ''2026-10-23'' ''Opened'' 0, reagent ''B'' ''2027-05-21'' ''Unopened'' 5] =
     \<lparr>expSoon = 0, expired = 1, outOfStock = 0, zeroQty = 1\<rparr>"
proof -
  have e: "expiryDate (reagent ''A'' ''2026-10-23'' ''Opened'' 0) = JStr ''2026-10-23''"
    "expiryDate (reagent ''B'' ''2027-05-21'' ''Unopened'' 5) = JStr ''2027-05-21''"
    "quantity (reagent ''A'' ''2026-10-23'' ''Opened'' 0) = JNum (Fin 0)"
    "quantity (reagent ''B'' ''2027-05-21'' ''Unopened'' 5) = JNum (Fin 5)"
    "status (reagent ''A'' ''2026-10-23'' ''Opened'' 0) = JStr ''Opened''"
    "status (reagent ''B'' ''2027-05-21'' ''Unopened'' 5) = JStr ''Unopened''"
    by (simp_all add: reagent_def)
  show ?thesis
    using computeAlerts_counts [of example_host "[]"] e example_parse_scenario
      example_days_scenario
    by simp
qed

section \<open>Properties of filter\<close>

lemma str_includes_sublist: "str_includes hay q = sublist q hay"
  by (induction hay) (auto simp: sublist_Cons_right)

lemma strict_eq_JStr: "strict_eq v (JStr s) = (v = JStr s)"
  by (cases v) auto

lemma search_step:
  assumes "search_term_ok f"
  shows "(if truthy (search f)
          then (case search f of
                  JStr s \<Rightarrow> Inr (\<not> str_includes (haystack h i) (toLowerCase h s))
                | _ \<Rightarrow> Inl TypeError)
          else Inr False) = (Inr (\<not> search_ok h f i) :: error + bool)"
  using assms
  by (cases "search f")
     (simp_all add: search_term_ok_def unset_def search_ok_def haystack_def joined_fields_def
        str_includes_sublist)

lemma expiry_step:
  "(let expInfo = classifyExpiry h (expiryDate i) in
      if strict_eq (expiry f) (JStr ''expired'') \<and> code expInfo \<noteq> ''expired''
      then Inr False
      else if strict_eq (expiry f) (JStr ''3months'') \<and> code expInfo \<noteq> ''warning''
      then Inr False
      else if strict_eq (expiry f) (JStr ''good'') \<and> code expInfo \<noteq> ''good''
      then Inr False
      else if strict_eq (lowStock f) (JStr ''low'')
              \<and> \<not> js_le h (quantity i) (JNum (Fin 2))
      then Inr False
      else Inr True) = (Inr (expiry_ok h f i \<and> lowStock_ok h f i) :: error + bool)"
  by (simp add: Let_def strict_eq_JStr expiry_ok_def lowStock_ok_def bucket_def)

lemma filter_callback_satisfies:
  assumes "search_term_ok f"
  shows "filter_callback h f i = Inr (satisfies h f i)"
  unfolding filter_callback_def search_step [OF assms] expiry_step
  by (simp add: satisfies_def category_ok_def status_ok_def unset_def split: bool.split)

lemma array_filter_total:
  "(\<And>x. x \<in> set xs \<Longrightarrow> p x = Inr (q x)) \<Longrightarrow> array_filter p xs = Inr (filter q xs)"
  by (induction xs) auto

lemma filter_items_satisfies:
  "search_term_ok f \<Longrightarrow> filter_items h items f = Inr (filter (satisfies h f) items)"
  by (simp add: filter_items_def array_filter_total filter_callback_satisfies)

lemma no_criteria_search: "no_criteria f \<Longrightarrow> search_term_ok f"
  by (cases "search f") (simp_all add: no_criteria_def search_term_ok_def)

lemma unset_bucket: "unset v \<Longrightarrow> bucket v = None"
  by (cases v) (simp_all add: unset_def bucket_def)

lemma unset_search_ok: "unset (search f) \<Longrightarrow> search_ok h f i"
  by (cases "search f") (simp_all add: unset_def search_ok_def)

lemma unset_not_low: "unset v \<Longrightarrow> v \<noteq> JStr ''low''"
  by (cases v) (simp_all add: unset_def)

lemma no_criteria_satisfies:
  assumes "no_criteria f"
  shows "satisfies h f i"
proof -
  from assms have u: "unset (search f)" "unset (category_filter f)" "unset (status_filter f)"
    "unset (expiry f)" "unset (lowStock f)"
    by (simp_all add: no_criteria_def)
  show ?thesis
    unfolding satisfies_def category_ok_def status_ok_def expiry_ok_def lowStock_ok_def
    using u unset_search_ok [OF u(1)] unset_bucket [OF u(4)] unset_not_low [OF u(5)]
    by simp
qed


text \<open>
  C4. When the search term is unset or a string, \<open>filter\<close> returns, in their order,
  exactly the items that satisfy every criterion that is set: the category and the
  status match exactly, the lower-cased search term occurs in the lower-cased
  concatenation, joined by spaces, of the non-empty category, item name, brand, content
  volume, lot number and remarks, the classification code is the one of the expiry
  bucket, and under the low-stock criterion the quantity is at most 2. A criterion that
  is unset imposes nothing: with all of them unset every item passes.
\<close>

theorem filter_all_criteria:
  "(search_term_ok f \<longrightarrow>
      filter_items h items f = Inr (filter (satisfies h f) items) \<and>
      (\<forall>out. filter_items h items f = Inr out \<longrightarrow>
         (\<forall>i. i \<in> set out \<longleftrightarrow> i \<in> set items \<and> satisfies h f i))) \<and>
   (no_criteria f \<longrightarrow> filter_items h items f = Inr items)"
proof (intro conjI impI)
  assume "search_term_ok f"
  then show "filter_items h items f = Inr (filter (satisfies h f) items)"
    by (rule filter_items_satisfies)
  then show "\<forall>out. filter_items h items f = Inr out \<longrightarrow>
         (\<forall>i. i \<in> set out \<longleftrightarrow> i \<in> set items \<and> satisfies h f i)"
    by auto
next
  assume n: "no_criteria f"
  then have "filter (satisfies h f) items = items"
    by (simp add: no_criteria_satisfies)
  with n show "filter_items h items f = Inr items"
    by (simp add: filter_items_satisfies no_criteria_search)
qed

lemma example_search_ok: "search_term_ok example_filters"
  by (simp add: search_term_ok_def example_filters_def)

lemma example_no_criteria: "no_criteria no_filters"
  by (simp add: no_criteria_def no_filters_def unset_def)

lemma example_filtered:
  "filter_items example_host example_items example_filters =
     Inr [reagent ''Glucose'' ''2027-01-31'' ''Opened'' 2]"
  by code_simp

theorem filter_all_criteria_witness:
  "search_term_ok example_filters \<and>
   filter (satisfies example_host example_filters) example_items =
     [reagent ''Glucose'' ''2027-01-31'' ''Opened'' 2] \<and>
   no_criteria no_filters \<and>
   filter_items example_host example_items no_filters = Inr example_items"
proof -
  have "filter_items example_host example_items example_filters =
      Inr (filter (satisfies example_host example_filters) example_items)"
    using filter_all_criteria [of example_filters example_host example_items] example_search_ok
    by blast
  then have "Inr [reagent ''Glucose'' ''2027-01-31'' ''Opened'' 2] =
      (Inr (filter (satisfies example_host example_filters) example_items) :: error + item list)"
    unfolding example_filtered .
  then have 1: "filter (satisfies example_host example_filters) example_items =
      [reagent ''Glucose'' ''2027-01-31'' ''Opened'' 2]"
    by (simp only: sum.inject)
  have 2: "filter_items example_host example_items no_filters = Inr example_items"
    using filter_all_criteria [of no_filters example_host example_items] example_no_criteria
    by blast
  from example_search_ok 1 example_no_criteria 2 show ?thesis by (intro conjI)
qed

lemma bucket_undefined: "bucket JUndefined = None"
  by (simp add: bucket_def)

lemma satisfies_expiry:
  assumes "bucket (expiry f) = Some c"
  shows "satisfies h f i \<longleftrightarrow>
     satisfies h (f\<lparr>expiry := JUndefined\<rparr>) i \<and> code (classifyExpiry h (expiryDate i)) = c"
  unfolding satisfies_def category_ok_def status_ok_def search_ok_def expiry_ok_def
    lowStock_ok_def
  using assms by (simp add: bucket_undefined) blast

lemma satisfies_no_bucket:
  assumes "bucket (expiry f) = None"
  shows "satisfies h f i \<longleftrightarrow> satisfies h (f\<lparr>expiry := JUndefined\<rparr>) i"
  unfolding satisfies_def category_ok_def status_ok_def search_ok_def expiry_ok_def
    lowStock_ok_def
  using assms by (simp add: bucket_undefined)

text \<open>
  C3 (amended). The expiry criterion selects a bucket by one of the values \<open>expired\<close>,
  \<open>3months\<close> and \<open>good\<close>, which stand for the classification codes \<open>expired\<close>,
  \<open>warning\<close> and \<open>good\<close>. With such a value, \<open>filter\<close> keeps exactly the items
  of that code among those that pass the other criteria. Any other value, the code
  \<open>warning\<close> among them, selects no bucket and imposes nothing.
\<close>

theorem filter_expiry_bucket:
  "bucket (JStr ''expired'') = Some ''expired'' \<and> bucket (JStr ''3months'') = Some ''warning'' \<and>
   bucket (JStr ''good'') = Some ''good'' \<and> bucket (JStr ''warning'') = None \<and>
   (\<forall>c others. search_term_ok f \<and> bucket (expiry f) = Some c \<and>
      filter_items h items (f\<lparr>expiry := JUndefined\<rparr>) = Inr others \<longrightarrow>
      filter_items h items f =
        Inr (filter (\<lambda>i. code (classifyExpiry h (expiryDate i)) = c) others)) \<and>
   (search_term_ok f \<and> bucket (expiry f) = None \<longrightarrow>
      filter_items h items f = filter_items h items (f\<lparr>expiry := JUndefined\<rparr>))"
proof (intro conjI allI impI)
  show "bucket (JStr ''expired'') = Some ''expired''" "bucket (JStr ''3months'') = Some ''warning''"
    "bucket (JStr ''good'') = Some ''good''" "bucket (JStr ''warning'') = None"
    by (simp_all add: bucket_def)
next
  fix c others
  assume a: "search_term_ok f \<and> bucket (expiry f) = Some c \<and>
      filter_items h items (f\<lparr>expiry := JUndefined\<rparr>) = Inr others"
  then have s: "search_term_ok (f\<lparr>expiry := JUndefined\<rparr>)"
    by (simp add: search_term_ok_def)
  from a have o: "others = filter (satisfies h (f\<lparr>expiry := JUndefined\<rparr>)) items"
    using filter_items_satisfies [OF s, of h items] by simp
  from a have b: "bucket (expiry f) = Some c" by simp
  from a have "filter_items h items f = Inr (filter (satisfies h f) items)"
    by (simp add: filter_items_satisfies)
  also have "filter (satisfies h f) items =
      filter (\<lambda>i. code (classifyExpiry h (expiryDate i)) = c) others"
    unfolding o filter_filter satisfies_expiry [OF b] ..
  finally show "filter_items h items f =
        Inr (filter (\<lambda>i. code (classifyExpiry h (expiryDate i)) = c) others)" .
next
  assume a: "search_term_ok f \<and> bucket (expiry f) = None"
  then have s: "search_term_ok (f\<lparr>expiry := JUndefined\<rparr>)"
    by (simp add: search_term_ok_def)
  from a have b: "bucket (expiry f) = None" by simp
  have "satisfies h f = satisfies h (f\<lparr>expiry := JUndefined\<rparr>)"
    by (rule ext) (rule satisfies_no_bucket [OF b])
  with a show "filter_items h items f = filter_items h items (f\<lparr>expiry := JUndefined\<rparr>)"
    by (simp add: filter_items_satisfies s)
qed

lemma example_others:
  "filter_items example_host example_items (example_filters\<lparr>expiry := JUndefined\<rparr>) =
     Inr [reagent ''Glucose'' ''2027-01-31'' ''Opened'' 2,
          reagent ''Glucose HK'' ''2027-05-21'' ''Opened'' 1]"
  by code_simp

theorem filter_expiry_bucket_witness:
  "search_term_ok example_filters \<and> bucket (expiry example_filters) = Some ''warning'' \<and>
   filter_items example_host example_items (example_filters\<lparr>expiry := JUndefined\<rparr>) =
     Inr [reagent ''Glucose'' ''2027-01-31'' ''Opened'' 2,
          reagent ''Glucose HK'' ''2027-05-21'' ''Opened'' 1] \<and>
   filter (\<lambda>i. code (classifyExpiry example_host (expiryDate i)) = ''warning'')
     [reagent ''Glucose'' ''2027-01-31'' ''Opened'' 2,
      reagent ''Glucose HK'' ''2027-05-21'' ''Opened'' 1] =
     [reagent ''Glucose'' ''2027-01-31'' ''Opened'' 2]"
proof -
  have b: "bucket (expiry example_filters) = Some ''warning''"
    by (simp add: bucket_def example_filters_def)
  have "filter_items example_host example_items example_filters =
      Inr (filter (\<lambda>i. code (classifyExpiry example_host (expiryDate i)) = ''warning'')
        [reagent ''Glucose'' ''2027-01-31'' ''Opened'' 2,
         reagent ''Glucose HK'' ''2027-05-21'' ''Opened'' 1])"
    using filter_expiry_bucket [of example_filters example_host example_items]
      example_search_ok b example_others
    by blast
  then have "Inr [reagent ''Glucose'' ''2027-01-31'' ''Opened'' 2] =
      (Inr (filter (\<lambda>i. code (classifyExpiry example_host (expiryDate i)) = ''warning'')
        [reagent ''Glucose'' ''2027-01-31'' ''Opened'' 2,
         reagent ''Glucose HK'' ''2027-05-21'' ''Opened'' 1]) :: error + item list)"
    unfolding example_filtered .
  then have 1: "filter (\<lambda>i. code (classifyExpiry example_host (expiryDate i)) = ''warning'')
        [reagent ''Glucose'' ''2027-01-31'' ''Opened'' 2,
         reagent ''Glucose HK'' ''2027-05-21'' ''Opened'' 1] =
      [reagent ''Glucose'' ''2027-01-31'' ''Opened'' 2]"
    by (simp only: sum.inject)
  from example_search_ok b example_others 1 show ?thesis by (intro conjI)
qed

text \<open>
  The claim as the specification words it fails for the code \<open>warning\<close>: with that
  value as the expiry criterion, an item classified \<open>good\<close> is kept.
\<close>

theorem expiry_warning_keeps_good:
  "filter_items example_host [reagent ''Glucose HK'' ''2027-05-21'' ''Opened'' 1]
     (no_filters\<lparr>expiry := JStr ''warning''\<rparr>) =
     Inr [reagent ''Glucose HK'' ''2027-05-21'' ''Opened'' 1] \<and>
   code (classifyExpiry example_host
     (expiryDate (reagent ''Glucose HK'' ''2027-05-21'' ''Opened'' 1))) = ''good''"
  by code_simp

section \<open>Properties of filter and sort on arrays\<close>

lemma sort_ref_contents:
  assumes "items < length hp"
  shows "sort_ref h hp items sortField direction =
     (case sort_items h (hp ! items) sortField direction of
        Inl e \<Rightarrow> Inl e
      | Inr out \<Rightarrow> Inr (hp @ [out], length hp))"
proof (cases "truthy sortField")
  case False
  then show ?thesis by (simp add: sort_ref_def sort_items_def slice_def)
next
  case True
  then show ?thesis
    using assms
    by (cases sortField)
       (simp_all add: sort_ref_def sort_items_def slice_def sort_in_place_def Let_def)
qed

lemma filter_ref_contents:
  "filter_ref h hp items f =
     (case filter_items h (hp ! items) f of
        Inl e \<Rightarrow> Inl e
      | Inr out \<Rightarrow> Inr (hp @ [out], length hp))"
  by (simp add: filter_ref_def filter_items_def)

lemma sort_items_unset: "unset sortField \<Longrightarrow> sort_items h items sortField direction = Inr items"
  by (simp add: sort_items_def unset_def)

lemma sort_items_string:
  "\<exists>out. sort_items h items (JStr fld) direction = Inr out"
  by (simp add: sort_items_def Let_def)

text \<open>
  C5. \<open>filter\<close> and \<open>sort\<close> each return a new array and leave every array that
  existed before, the input among them, as it was; \<open>filter\<close> returns whenever the
  search term is unset or a string, \<open>sort\<close> whenever the sort field is unset or a
  string, and with the field unset the result of \<open>sort\<close> has the items of the input
  in the same order. So filtering with no criterion set and then sorting with the
  sort field unset gives a new array equal to the input, item for item.
\<close>

theorem filter_sort_copy:
  "items < length hp \<longrightarrow>
     (\<forall>hp' out. filter_ref h hp items f = Inr (hp', out) \<longrightarrow>
        out = length hp \<and> length hp' = Suc (length hp) \<and>
        (\<forall>a < length hp. hp' ! a = hp ! a) \<and>
        filter_items h (hp ! items) f = Inr (hp' ! out)) \<and>
     (\<forall>hp' out. sort_ref h hp items sortField direction = Inr (hp', out) \<longrightarrow>
        out = length hp \<and> length hp' = Suc (length hp) \<and>
        (\<forall>a < length hp. hp' ! a = hp ! a) \<and>
        sort_items h (hp ! items) sortField direction = Inr (hp' ! out) \<and>
        (unset sortField \<longrightarrow> hp' ! out = hp ! items)) \<and>
     (search_term_ok f \<longrightarrow> (\<exists>hp' out. filter_ref h hp items f = Inr (hp', out))) \<and>
     (unset sortField \<or> (\<exists>fld. sortField = JStr fld) \<longrightarrow>
        (\<exists>hp' out. sort_ref h hp items sortField direction = Inr (hp', out))) \<and>
     (no_criteria f \<and> unset sortField \<longrightarrow>
        (\<exists>hp1 filtered hp2 sorted.
           filter_ref h hp items f = Inr (hp1, filtered) \<and>
           sort_ref h hp1 filtered sortField direction = Inr (hp2, sorted) \<and>
           hp2 ! sorted = hp ! items \<and> sorted \<noteq> items \<and> filtered \<noteq> items \<and>
           hp2 ! items = hp ! items))"
proof (intro impI conjI allI)
  fix hp' out
  assume i: "items < length hp" and r: "filter_ref h hp items f = Inr (hp', out)"
  from r obtain ys where ys: "filter_items h (hp ! items) f = Inr ys"
    and hp': "hp' = hp @ [ys]" and out: "out = length hp"
    by (auto simp: filter_ref_contents split: sum.splits)
  show "out = length hp" by (rule out)
  show "length hp' = Suc (length hp)" by (simp add: hp')
  show "hp' ! a = hp ! a" if "a < length hp" for a using that by (simp add: hp' nth_append)
  show "filter_items h (hp ! items) f = Inr (hp' ! out)" by (simp add: hp' out ys)
next
  fix hp' out
  assume i: "items < length hp"
    and r: "sort_ref h hp items sortField direction = Inr (hp', out)"
  from r obtain ys where ys: "sort_items h (hp ! items) sortField direction = Inr ys"
    and hp': "hp' = hp @ [ys]" and out: "out = length hp"
    by (auto simp: sort_ref_contents [OF i] split: sum.splits)
  show "out = length hp" by (rule out)
  show "length hp' = Suc (length hp)" by (simp add: hp')
  show "hp' ! a = hp ! a" if "a < length hp" for a using that by (simp add: hp' nth_append)
  show "sort_items h (hp ! items) sortField direction = Inr (hp' ! out)"
    by (simp add: hp' out ys)
  show "hp' ! out = hp ! items" if "unset sortField"
    using ys that by (simp add: sort_items_unset hp' out)
next
  assume "items < length hp" and "search_term_ok f"
  then show "\<exists>hp' out. filter_ref h hp items f = Inr (hp', out)"
    by (simp add: filter_ref_contents filter_items_satisfies)
next
  assume i: "items < length hp" and s: "unset sortField \<or> (\<exists>fld. sortField = JStr fld)"
  then obtain ys where "sort_items h (hp ! items) sortField direction = Inr ys"
    using sort_items_unset [of sortField h "hp ! items" direction]
      sort_items_string [of h "hp ! items" _ direction]
    by auto
  then show "\<exists>hp' out. sort_ref h hp items sortField direction = Inr (hp', out)"
    by (simp add: sort_ref_contents [OF i])
next
  assume i: "items < length hp" and n: "no_criteria f \<and> unset sortField"
  define hp1 where "hp1 = hp @ [hp ! items]"
  define hp2 where "hp2 = hp1 @ [hp ! items]"
  have f: "filter_items h (hp ! items) f = Inr (hp ! items)"
    using n by (simp add: filter_items_satisfies no_criteria_search no_criteria_satisfies)
  have 1: "filter_ref h hp items f = Inr (hp1, length hp)"
    by (simp add: filter_ref_contents f hp1_def)
  have l: "length hp < length hp1" by (simp add: hp1_def)
  have "sort_ref h hp1 (length hp) sortField direction =
      Inr (hp1 @ [hp1 ! length hp], length hp1)"
    using n by (simp add: sort_ref_contents [OF l] sort_items_unset)
  then have 2: "sort_ref h hp1 (length hp) sortField direction = Inr (hp2, length hp1)"
    by (simp add: hp2_def hp1_def)
  have 3: "hp2 ! length hp1 = hp ! items" by (simp add: hp2_def)
  have 4: "length hp1 \<noteq> items" "length hp \<noteq> items" using i by (simp_all add: hp1_def)
  have 5: "hp2 ! items = hp ! items" using i by (simp add: hp2_def hp1_def nth_append)
  from 1 2 3 4 5
  show "\<exists>hp1 filtered hp2 sorted.
           filter_ref h hp items f = Inr (hp1, filtered) \<and>
           sort_ref h hp1 filtered sortField direction = Inr (hp2, sorted) \<and>
           hp2 ! sorted = hp ! items \<and> sorted \<noteq> items \<and> filtered \<noteq> items \<and>
           hp2 ! items = hp ! items"
    by blast
qed

theorem filter_sort_copy_witness:
  "0 < length [example_items] \<and> no_criteria no_filters \<and> unset (JStr '''') \<and>
   (\<exists>hp1 filtered hp2 sorted.
      filter_ref example_host [example_items] 0 no_filters = Inr (hp1, filtered) \<and>
      sort_ref example_host hp1 filtered (JStr '''') (JStr ''asc'') = Inr (hp2, sorted) \<and>
      hp2 ! sorted = example_items \<and> sorted \<noteq> 0 \<and> hp2 ! 0 = example_items)"
  using filter_sort_copy [of 0 "[example_items]" example_host no_filters "JStr ''''" "JStr ''asc''"]
    example_no_criteria
  by (simp add: unset_def) blast

section \<open>Properties of sort\<close>

lemma insert_by_insort_key:
  "(\<And>y. y \<in> set ys \<Longrightarrow> (cmp x y \<le> 0) = (k x \<le> k y)) \<Longrightarrow>
   insert_by cmp x ys = insort_key k x ys"
  by (induction ys) auto

lemma array_sort_sort_key:
  assumes "\<And>x y. x \<in> set xs \<Longrightarrow> y \<in> set xs \<Longrightarrow> (cmp x y \<le> 0) = (k x \<le> k y)"
  shows "array_sort cmp xs = sort_key k xs"
  using assms
proof (induction xs)
  case Nil
  show ?case by (simp add: array_sort_def)
next
  case (Cons x xs)
  have IH: "array_sort cmp xs = sort_key k xs"
    by (rule Cons.IH) (simp add: Cons.prems)
  have "insert_by cmp x (sort_key k xs) = insort_key k x (sort_key k xs)"
    by (rule insert_by_insort_key) (simp add: Cons.prems)
  with IH show ?case by (simp add: array_sort_def)
qed

lemma compare_date:
  assumes "fld \<noteq> ''quantity''" "str_includes (toLowerCase h fld) ''date''"
  shows "compare h fld dir a b =
     (if date_key h fld a = date_key h fld b then 0
      else if date_key h fld a > date_key h fld b then dir else - dir)"
  using assms by (simp add: compare_def date_key_def Let_def)

lemma compare_quantity:
  assumes "\<not> str_includes (toLowerCase h ''quantity'') ''date''"
    "finite_quantity h a" "finite_quantity h b"
  shows "compare h ''quantity'' dir a b =
     (if quantity_key h a = quantity_key h b then 0
      else if quantity_key h a > quantity_key h b then dir else - dir)"
proof -
  obtain qa where qa: "ToNumber h (nullish (quantity a) (JNum (Fin 0))) = Fin qa"
    using assms(2) by (auto simp: finite_quantity_def split: jsnum.splits)
  obtain qb where qb: "ToNumber h (nullish (quantity b) (JNum (Fin 0))) = Fin qb"
    using assms(3) by (auto simp: finite_quantity_def split: jsnum.splits)
  show ?thesis
    using assms(1) qa qb
    by (simp add: compare_def Let_def get_prop_def js_Number_def lower_if_string_def
        js_gt_def quantity_key_def)
qed

lemma sorted_precedes:
  assumes "sorted (map k out)" "j < length out" "l < length out" "k (out ! j) < k (out ! l)"
  shows "j < l"
proof (rule ccontr)
  assume "\<not> j < l"
  then have "l \<le> j" by simp
  then have "map k out ! l \<le> map k out ! j"
    using assms(1,2) by (simp add: sorted_iff_nth_mono del: nth_map)
  then show False using assms by simp
qed

text \<open>
  C6 (amended). Sorting by a field whose lower-cased name contains \<open>date\<close> orders the
  items, stably, by the time value the parser gives the field, and by the epoch (time
  value 0) when the date is missing or does not parse: ascending, such an item comes
  before every item dated after the epoch. Sorting by \<open>quantity\<close> orders the items by
  the number \<open>Number(quantity ?? 0)\<close>, descending when the direction is \<open>desc\<close>:
  items of quantities 3, 1, 2 come out in the order 3, 2, 1.
\<close>

theorem sort_dates_and_quantities:
  "(fld \<noteq> [] \<and> fld \<noteq> ''quantity'' \<and> str_includes (toLowerCase h fld) ''date'' \<and>
    direction \<noteq> JStr ''desc'' \<longrightarrow>
      sort_items h items (JStr fld) direction = Inr (sort_key (date_key h fld) items) \<and>
      (\<forall>i. parse h (get_prop i fld) = None \<longrightarrow> date_key h fld i = 0) \<and>
      (\<forall>out j l. sort_items h items (JStr fld) direction = Inr out \<and>
         j < length out \<and> l < length out \<and> parse h (get_prop (out ! j) fld) = None \<and>
         0 < date_key h fld (out ! l) \<longrightarrow> j < l)) \<and>
   (\<not> str_includes (toLowerCase h ''quantity'') ''date'' \<and>
    (\<forall>i \<in> set items. finite_quantity h i) \<longrightarrow>
      sort_items h items (JStr ''quantity'') (JStr ''desc'') =
        Inr (sort_key (\<lambda>i. - quantity_key h i) items) \<and>
      (direction \<noteq> JStr ''desc'' \<longrightarrow>
         sort_items h items (JStr ''quantity'') direction =
           Inr (sort_key (quantity_key h) items))) \<and>
   (\<forall>a b c. \<not> str_includes (toLowerCase h ''quantity'') ''date'' \<and>
      quantity a = JNum (Fin 3) \<and> quantity b = JNum (Fin 1) \<and> quantity c = JNum (Fin 2) \<longrightarrow>
      sort_items h [a, b, c] (JStr ''quantity'') (JStr ''desc'') = Inr [a, c, b])"
proof (intro conjI impI allI)
  assume a: "fld \<noteq> [] \<and> fld \<noteq> ''quantity'' \<and> str_includes (toLowerCase h fld) ''date'' \<and>
    direction \<noteq> JStr ''desc''"
  have "array_sort (compare h fld 1) items = sort_key (date_key h fld) items"
    by (rule array_sort_sort_key) (use a in \<open>simp add: compare_date\<close>)
  then show s: "sort_items h items (JStr fld) direction = Inr (sort_key (date_key h fld) items)"
    using a by (simp add: sort_items_def strict_eq_JStr)
  show "date_key h fld i = 0" if "parse h (get_prop i fld) = None" for i
    using that by (simp add: date_key_def getTime_or_0_def)
  show "j < l"
    if "sort_items h items (JStr fld) direction = Inr out \<and>
         j < length out \<and> l < length out \<and> parse h (get_prop (out ! j) fld) = None \<and>
         0 < date_key h fld (out ! l)" for out j l
  proof -
    from that s have o: "out = sort_key (date_key h fld) items" by simp
    have "sorted (map (date_key h fld) out)" by (simp add: o)
    moreover have "date_key h fld (out ! j) = 0"
      using that by (simp add: date_key_def getTime_or_0_def)
    ultimately show ?thesis using that sorted_precedes [of "date_key h fld" out j l] by simp
  qed
next
  assume a: "\<not> str_includes (toLowerCase h ''quantity'') ''date'' \<and>
    (\<forall>i \<in> set items. finite_quantity h i)"
  have "array_sort (compare h ''quantity'' (- 1)) items =
      sort_key (\<lambda>i. - quantity_key h i) items"
    by (rule array_sort_sort_key) (use a in \<open>auto simp: compare_quantity\<close>)
  then show "sort_items h items (JStr ''quantity'') (JStr ''desc'') =
        Inr (sort_key (\<lambda>i. - quantity_key h i) items)"
    by (simp add: sort_items_def)
  have "array_sort (compare h ''quantity'' 1) items = sort_key (quantity_key h) items"
    by (rule array_sort_sort_key) (use a in \<open>auto simp: compare_quantity\<close>)
  then show "sort_items h items (JStr ''quantity'') direction =
           Inr (sort_key (quantity_key h) items)" if "direction \<noteq> JStr ''desc''"
    using that by (simp add: sort_items_def strict_eq_JStr)
next
  fix a b c :: item
  assume q: "\<not> str_includes (toLowerCase h ''quantity'') ''date'' \<and>
      quantity a = JNum (Fin 3) \<and> quantity b = JNum (Fin 1) \<and> quantity c = JNum (Fin 2)"
  then have f: "finite_quantity h a" "finite_quantity h b" "finite_quantity h c"
    by (simp_all add: finite_quantity_def nullish_def)
  from q have k: "quantity_key h a = 3" "quantity_key h b = 1" "quantity_key h c = 2"
    by (simp_all add: quantity_key_def nullish_def)
  show "sort_items h [a, b, c] (JStr ''quantity'') (JStr ''desc'') = Inr [a, c, b]"
    using q f k by (simp add: sort_items_def array_sort_def compare_quantity)
qed

lemma example_lower:
  "str_includes (toLowerCase example_host ''expiryDate'') ''date''"
  "\<not> str_includes (toLowerCase example_host ''quantity'') ''date''"
  by code_simp+

lemma example_sorted_dates:
  "sort_key (date_key example_host ''expiryDate'') dated_items =
     [undated, reagent ''Albumin'' ''soon'' ''Opened'' 2,
      reagent ''Urea'' ''2026-11-01'' ''Opened'' 1, reagent ''Glucose'' ''2027-01-31'' ''Opened'' 3]"
  by code_simp

theorem sort_dates_and_quantities_witness:
  "str_includes (toLowerCase example_host ''expiryDate'') ''date'' \<and>
   sort_items example_host dated_items (JStr ''expiryDate'') (JStr ''asc'') =
     Inr [undated, reagent ''Albumin'' ''soon'' ''Opened'' 2,
          reagent ''Urea'' ''2026-11-01'' ''Opened'' 1,
          reagent ''Glucose'' ''2027-01-31'' ''Opened'' 3] \<and>
   \<not> str_includes (toLowerCase example_host ''quantity'') ''date'' \<and>
   sort_items example_host
     [reagent ''Glucose'' ''2027-01-31'' ''Opened'' 3, reagent ''Urea'' ''2026-11-01'' ''Opened'' 1,
      reagent ''Albumin'' ''soon'' ''Opened'' 2] (JStr ''quantity'') (JStr ''desc'') =
     Inr [reagent ''Glucose'' ''2027-01-31'' ''Opened'' 3,
          reagent ''Albumin'' ''soon'' ''Opened'' 2, reagent ''Urea'' ''2026-11-01'' ''Opened'' 1]"
proof -
  note inst = sort_dates_and_quantities
    [of "''expiryDate''" example_host "JStr ''asc''" dated_items]
  have "sort_items example_host dated_items (JStr ''expiryDate'') (JStr ''asc'') =
      Inr (sort_key (date_key example_host ''expiryDate'') dated_items)"
    using inst example_lower(1) by simp
  then have 1: "sort_items example_host dated_items (JStr ''expiryDate'') (JStr ''asc'') =
     Inr [undated, reagent ''Albumin'' ''soon'' ''Opened'' 2,
          reagent ''Urea'' ''2026-11-01'' ''Opened'' 1,
          reagent ''Glucose'' ''2027-01-31'' ''Opened'' 3]"
    unfolding example_sorted_dates .
  have q: "quantity (reagent ''Glucose'' ''2027-01-31'' ''Opened'' 3) = JNum (Fin 3)"
    "quantity (reagent ''Urea'' ''2026-11-01'' ''Opened'' 1) = JNum (Fin 1)"
    "quantity (reagent ''Albumin'' ''soon'' ''Opened'' 2) = JNum (Fin 2)"
    by (simp_all add: reagent_def)
  have 2: "sort_items example_host
     [reagent ''Glucose'' ''2027-01-31'' ''Opened'' 3, reagent ''Urea'' ''2026-11-01'' ''Opened'' 1,
      reagent ''Albumin'' ''soon'' ''Opened'' 2] (JStr ''quantity'') (JStr ''desc'') =
     Inr [reagent ''Glucose'' ''2027-01-31'' ''Opened'' 3,
          reagent ''Albumin'' ''soon'' ''Opened'' 2, reagent ''Urea'' ''2026-11-01'' ''Opened'' 1]"
    using inst example_lower(2) q by blast
  from example_lower 1 2 show ?thesis by (intro conjI)
qed

text \<open>
  The claim as the specification words it fails: an item dated before the epoch is
  placed ahead of an item that has no date.
\<close>

theorem unparseable_date_not_first:
  "parse example_host (get_prop undated ''expiryDate'') = None \<and>
   parse example_host (get_prop old_stock ''expiryDate'') = Some (- 86400000) \<and>
   sort_items example_host [undated, old_stock] (JStr ''expiryDate'') (JStr ''asc'') =
     Inr [old_stock, undated]"
  by code_simp

section \<open>Properties of load, upsert and remove\<close>

lemma load_console_error: "fst (load h (console_error m w)) = fst (load h w)"
  by (simp add: load_def getClient_def console_error_def split: option.splits reply.splits)

lemma load_keeps_console: "set (console w) \<subseteq> set (console (snd (load h w)))"
  by (auto simp: load_def getClient_def console_error_def split: option.splits reply.splits)

lemma load_no_client: "supabaseClient w = None \<Longrightarrow> fst (load h w) = []"
  by (simp add: load_def getClient_def)

lemma upsert_with_client:
  assumes "supabaseClient w = Some c" "upsert_row c (mapItemToRow h i) (store w) = (r, s)"
  shows "upsert h w i =
     load h (case r of
               Reply u \<Rightarrow> w\<lparr>store := s\<rparr>
             | Rejected \<Rightarrow>
                 console_error ''Failed to upsert inventory item in Supabase'' (w\<lparr>store := s\<rparr>)
             | Thrown \<Rightarrow>
                 console_error ''Unexpected error upserting inventory item in Supabase''
                   (w\<lparr>store := s\<rparr>))"
  using assms by (simp add: upsert_def getClient_def Let_def)

lemma remove_with_client:
  assumes "supabaseClient w = Some c" "delete_row c ident (store w) = (r, s)"
  shows "remove h w ident =
     load h (case r of
               Reply u \<Rightarrow> w\<lparr>store := s\<rparr>
             | Rejected \<Rightarrow>
                 console_error ''Failed to delete inventory item in Supabase'' (w\<lparr>store := s\<rparr>)
             | Thrown \<Rightarrow>
                 console_error ''Unexpected error deleting inventory item in Supabase''
                   (w\<lparr>store := s\<rparr>))"
  using assms by (simp add: remove_def getClient_def Let_def)

lemma logged: "m \<in> set (console (snd (load h (console_error m w))))"
  using load_keeps_console [of "console_error m w" h] by (auto simp: console_error_def)

text \<open>
  C9. \<open>upsert\<close> and \<open>remove\<close> return what \<open>load\<close> returns once the write has been
  attempted: the collection loaded from the store as the attempt left it, whether the
  backend accepted the write, rejected it or raised an exception, and the failure is
  logged in the last two cases. Without a client they return the empty collection, as
  \<open>load\<close> does. \<open>load\<close> itself answers the empty collection when there is no client
  or when the backend rejects the request or raises.
\<close>

theorem upsert_remove_return_load:
  "(\<forall>c r s. supabaseClient w = Some c \<and> upsert_row c (mapItemToRow h i) (store w) = (r, s) \<longrightarrow>
      fst (upsert h w i) = fst (load h (w\<lparr>store := s\<rparr>)) \<and>
      (r = Rejected \<longrightarrow>
         ''Failed to upsert inventory item in Supabase'' \<in> set (console (snd (upsert h w i)))) \<and>
      (r = Thrown \<longrightarrow>
         ''Unexpected error upserting inventory item in Supabase''
           \<in> set (console (snd (upsert h w i))))) \<and>
   (\<forall>c r s. supabaseClient w = Some c \<and> delete_row c ident (store w) = (r, s) \<longrightarrow>
      fst (remove h w ident) = fst (load h (w\<lparr>store := s\<rparr>)) \<and>
      (r = Rejected \<longrightarrow>
         ''Failed to delete inventory item in Supabase''
           \<in> set (console (snd (remove h w ident)))) \<and>
      (r = Thrown \<longrightarrow>
         ''Unexpected error deleting inventory item in Supabase''
           \<in> set (console (snd (remove h w ident))))) \<and>
   (supabaseClient w = None \<longrightarrow>
      fst (upsert h w i) = fst (load h w) \<and> fst (remove h w ident) = fst (load h w)) \<and>
   (supabaseClient w = None \<or>
    (\<exists>c. supabaseClient w = Some c \<and>
       (select_ordered c (store w) = Rejected \<or> select_ordered c (store w) = Thrown)) \<longrightarrow>
      fst (load h w) = [])"
proof (intro conjI allI impI)
  fix c r s
  assume a: "supabaseClient w = Some c \<and> upsert_row c (mapItemToRow h i) (store w) = (r, s)"
  note u = upsert_with_client [of w c h i r s]
  show "fst (upsert h w i) = fst (load h (w\<lparr>store := s\<rparr>))"
    using a u by (cases r) (simp_all add: load_console_error)
  show "''Failed to upsert inventory item in Supabase'' \<in> set (console (snd (upsert h w i)))"
    if "r = Rejected"
    using a u that by (simp add: logged)
  show "''Unexpected error upserting inventory item in Supabase''
      \<in> set (console (snd (upsert h w i)))"
    if "r = Thrown"
    using a u that by (simp add: logged)
next
  fix c r s
  assume a: "supabaseClient w = Some c \<and> delete_row c ident (store w) = (r, s)"
  note u = remove_with_client [of w c ident r s h]
  show "fst (remove h w ident) = fst (load h (w\<lparr>store := s\<rparr>))"
    using a u by (cases r) (simp_all add: load_console_error)
  show "''Failed to delete inventory item in Supabase'' \<in> set (console (snd (remove h w ident)))"
    if "r = Rejected"
    using a u that by (simp add: logged)
  show "''Unexpected error deleting inventory item in Supabase''
      \<in> set (console (snd (remove h w ident)))"
    if "r = Thrown"
    using a u that by (simp add: logged)
next
  assume n: "supabaseClient w = None"
  show "fst (upsert h w i) = fst (load h w)"
    using n by (simp add: upsert_def getClient_def load_no_client)
  show "fst (remove h w ident) = fst (load h w)"
    using n by (simp add: remove_def getClient_def load_no_client)
next
  assume "supabaseClient w = None \<or>
    (\<exists>c. supabaseClient w = Some c \<and>
       (select_ordered c (store w) = Rejected \<or> select_ordered c (store w) = Thrown))"
  then show "fst (load h w) = []"
    by (auto simp: load_def getClient_def)
qed

theorem upsert_remove_return_load_witness:
  "supabaseClient example_world = Some rejecting_client \<and>
   upsert_row rejecting_client (mapItemToRow example_host glucose) (store example_world) =
     (Rejected, store example_world) \<and>
   fst (upsert example_host example_world glucose) = fst (load example_host example_world) \<and>
   ''Failed to upsert inventory item in Supabase''
     \<in> set (console (snd (upsert example_host example_world glucose))) \<and>
   delete_row rejecting_client (JStr ''itm-1'') (store example_world) =
     (Thrown, store example_world) \<and>
   fst (remove example_host example_world (JStr ''itm-1'')) =
     fst (load example_host example_world) \<and>
   ''Unexpected error deleting inventory item in Supabase''
     \<in> set (console (snd (remove example_host example_world (JStr ''itm-1''))))"
proof -
  have c: "supabaseClient example_world = Some rejecting_client"
    by (simp add: example_world_def)
  have u: "upsert_row rejecting_client (mapItemToRow example_host glucose) (store example_world) =
     (Rejected, store example_world)"
    by (simp add: rejecting_client_def)
  have d: "delete_row rejecting_client (JStr ''itm-1'') (store example_world) =
     (Thrown, store example_world)"
    by (simp add: rejecting_client_def)
  have w: "example_world\<lparr>store := store example_world\<rparr> = example_world"
    by simp
  note inst = upsert_remove_return_load
    [of example_world example_host glucose "JStr ''itm-1''"]
  have 1: "fst (upsert example_host example_world glucose) = fst (load example_host example_world)"
    "''Failed to upsert inventory item in Supabase''
     \<in> set (console (snd (upsert example_host example_world glucose)))"
    using inst c u w by metis+
  have 2: "fst (remove example_host example_world (JStr ''itm-1'')) =
     fst (load example_host example_world)"
    "''Unexpected error deleting inventory item in Supabase''
     \<in> set (console (snd (remove example_host example_world (JStr ''itm-1''))))"
    using inst c d w by metis+
  from c u 1 d 2 show ?thesis by (intro conjI)
qed

end
